theory Spec2Isabelle
  imports Complex_Main "HOL-Library.AList"
begin

section \<open>JavaScript values and strings\<close>

text \<open>
  The server (\<^verbatim>\<open>server.js\<close>) receives JSON bodies, so a field of a request can hold
  any JSON value, or be absent (\<^verbatim>\<open>undefined\<close>). A string is a list of characters; the
  characters of this model are the code units \<open>0x00\<close> to \<open>0xFF\<close>. A JSON number is
  tested for truthiness by the handlers and turned into a string by the document layer,
  and is kept as a rational. \<open>JOid\<close> is an \<^verbatim>\<open>ObjectId\<close> of the document store; no JSON
  body contains one.
\<close>

datatype jsval =
    JUndefined
  | JNull
  | JBool bool
  | JNum rat
  | JStr string
  | JOid nat
  | JArr "jsval list"
  | JObj "(string \<times> jsval) list"

text \<open>\<^verbatim>\<open>!v\<close> is \<open>\<not> truthy v\<close>: undefined, null, false, 0 and the empty string are falsy.\<close>

fun truthy :: "jsval \<Rightarrow> bool" where
  "truthy JUndefined = False"
| "truthy JNull = False"
| "truthy (JBool b) = b"
| "truthy (JNum n) = (n \<noteq> 0)"
| "truthy (JStr s) = (s \<noteq> [])"
| "truthy (JOid i) = True"
| "truthy (JArr xs) = True"
| "truthy (JObj kvs) = True"

fun typeof :: "jsval \<Rightarrow> string" where
  "typeof JUndefined = ''undefined''"
| "typeof JNull = ''object''"
| "typeof (JBool b) = ''boolean''"
| "typeof (JNum n) = ''number''"
| "typeof (JStr s) = ''string''"
| "typeof (JOid i) = ''object''"
| "typeof (JArr xs) = ''object''"
| "typeof (JObj kvs) = ''object''"

text \<open>
  Property access \<^verbatim>\<open>v[k]\<close> on a value that is truthy: an own property of an object, and
  \<^verbatim>\<open>undefined\<close> for a key the value does not have (the keys read by the handlers are
  no properties of strings, numbers, booleans or arrays).
\<close>

fun getProp :: "jsval \<Rightarrow> string \<Rightarrow> jsval" where
  "getProp (JObj kvs) k = (case map_of kvs k of Some v \<Rightarrow> v | None \<Rightarrow> JUndefined)"
| "getProp v k = JUndefined"

text \<open>
  The white space of ECMAScript (WhiteSpace and LineTerminator) among the code units of
  the model: TAB, LF, VT, FF, CR, SP and NBSP. \<^verbatim>\<open>String.prototype.trim\<close> and the string
  to number conversion strip the same set.
\<close>

definition isWhiteSpace :: "char \<Rightarrow> bool" where
  "isWhiteSpace c = (c \<in> set [CHR 0x09, CHR 0x0A, CHR 0x0B, CHR 0x0C, CHR 0x0D, CHR 0x20, CHR 0xA0])"

definition trim :: "string \<Rightarrow> string" where
  "trim s = rev (dropWhile isWhiteSpace (rev (dropWhile isWhiteSpace s)))"

text \<open>\<^verbatim>\<open>\d\<close> of a regular expression without the unicode flag: the ten ASCII digits.\<close>

definition isDigit :: "char \<Rightarrow> bool" where
  "isDigit c = (c \<in> set ''0123456789'')"

definition digitVal :: "char \<Rightarrow> int" where
  "digitVal c = int (of_char c) - 48"

definition decimal :: "string \<Rightarrow> int" where
  "decimal s = foldl (\<lambda>a c. 10 * a + digitVal c) 0 s"

text \<open>
  \<^verbatim>\<open>Number(s)\<close> for a string: white space is stripped on both sides, the empty string is
  0 and a string of decimal digits is its value. The other numeric literals of
  ECMAScript (sign, fraction, exponent, radix prefix, Infinity) give \<open>None\<close> here, as
  NaN does: \<open>validateDateFormat\<close> below converts only the parts of a string whose trimmed
  form has passed \<open>dateRegex\<close>, and those are digit strings (lemma \<open>split_date\<close>).
\<close>

definition Number :: "string \<Rightarrow> int option" where
  "Number s = (let t = trim s in
     if t = [] then Some 0
     else if list_all isDigit t then Some (decimal t)
     else None)"

text \<open>\<^verbatim>\<open>s.split(sep)\<close> for a separator of one character.\<close>

fun split :: "char \<Rightarrow> string \<Rightarrow> string list" where
  "split sep [] = [[]]"
| "split sep (c # cs) =
     (if c = sep then [] # split sep cs
      else (case split sep cs of p # ps \<Rightarrow> (c # p) # ps | [] \<Rightarrow> [[c]]))"

section \<open>Dates\<close>

text \<open>
  \<^verbatim>\<open>Date\<close> is the built-in of ECMAScript. Its abstract operations are written here as
  the language specification gives them, on time values in milliseconds since the epoch.
\<close>

definition msPerDay :: int where
  "msPerDay = 86400000"

definition Day :: "int \<Rightarrow> int" where
  "Day t = t div msPerDay"

definition DaysInYear :: "int \<Rightarrow> int" where
  "DaysInYear y =
     (if y mod 4 \<noteq> 0 then 365
      else if y mod 100 \<noteq> 0 then 366
      else if y mod 400 \<noteq> 0 then 365
      else 366)"

definition DayFromYear :: "int \<Rightarrow> int" where
  "DayFromYear y =
     365 * (y - 1970) + (y - 1969) div 4 - (y - 1901) div 100 + (y - 1601) div 400"

definition TimeFromYear :: "int \<Rightarrow> int" where
  "TimeFromYear y = msPerDay * DayFromYear y"

text \<open>
  \<open>YearFromTime t\<close> is the largest year \<open>y\<close> with \<open>TimeFromYear y \<le> t\<close>. It is computed by a
  walk over the years from an estimate; lemmas \<open>YearFromTime_bounds\<close> and \<open>YearFromTime_unique\<close>
  show that the walk finds that year.
\<close>

function yearWalk :: "int \<Rightarrow> int \<Rightarrow> int" where
  "yearWalk d y =
     (if d < DayFromYear y then yearWalk d (y - 1)
      else if DayFromYear (y + 1) \<le> d then yearWalk d (y + 1)
      else y)"
  by pat_completeness auto

text \<open>
  The walk ends: a year has 365 or 366 days, so each step brings the first day of the
  year closer to the day that is looked for. The lemmas up to \<open>DayFromYear_Suc\<close> are
  what the termination proof needs.
\<close>

lemma div_step:
  fixes a n :: int
  assumes n: "0 < n"
  shows "(a + 1) div n = a div n + (if (a + 1) mod n = 0 then 1 else 0)"
proof -
  define q r where "q = a div n" and "r = a mod n"
  have a: "a = n * q + r" and r: "0 \<le> r" "r < n"
    using n by (simp_all add: q_def r_def)
  show ?thesis
  proof (cases "r + 1 = n")
    case True
    then have e: "a + 1 = n * (q + 1) + 0" using a by (simp add: algebra_simps)
    have "(a + 1) div n = q + 1" using n by (intro int_div_pos_eq [OF e]) simp_all
    moreover have "(a + 1) mod n = 0" using n by (intro int_mod_pos_eq [OF e]) simp_all
    ultimately show ?thesis by (simp add: q_def)
  next
    case False
    then have e: "a + 1 = n * q + (r + 1)" and b: "0 \<le> r + 1" "r + 1 < n"
      using a r by simp_all
    have "(a + 1) div n = q" by (rule int_div_pos_eq [OF e b])
    moreover have "(a + 1) mod n = r + 1" by (rule int_mod_pos_eq [OF e b])
    ultimately show ?thesis using r by (simp add: q_def)
  qed
qed

lemma mod_shift4: "((y::int) - 1968) mod 4 = 0 \<longleftrightarrow> y mod 4 = 0"
proof -
  have "(4::int) dvd 1968" by simp
  then show ?thesis unfolding mod_eq_0_iff_dvd by (rule dvd_diff_left_iff)
qed

lemma mod_shift100: "((y::int) - 1900) mod 100 = 0 \<longleftrightarrow> y mod 100 = 0"
proof -
  have "(100::int) dvd 1900" by simp
  then show ?thesis unfolding mod_eq_0_iff_dvd by (rule dvd_diff_left_iff)
qed

lemma mod_shift400: "((y::int) - 1600) mod 400 = 0 \<longleftrightarrow> y mod 400 = 0"
proof -
  have "(400::int) dvd 1600" by simp
  then show ?thesis unfolding mod_eq_0_iff_dvd by (rule dvd_diff_left_iff)
qed

lemma mod_4_100: "(y::int) mod 100 = 0 \<Longrightarrow> y mod 4 = 0"
proof -
  assume "y mod 100 = 0"
  then have "100 dvd y" by (simp add: mod_eq_0_iff_dvd)
  moreover have "(4::int) dvd 100" by simp
  ultimately have "4 dvd y" by (metis dvd_trans)
  then show ?thesis by (simp add: mod_eq_0_iff_dvd)
qed

lemma mod_100_400: "(y::int) mod 400 = 0 \<Longrightarrow> y mod 100 = 0"
proof -
  assume "y mod 400 = 0"
  then have "400 dvd y" by (simp add: mod_eq_0_iff_dvd)
  moreover have "(100::int) dvd 400" by simp
  ultimately have "100 dvd y" by (metis dvd_trans)
  then show ?thesis by (simp add: mod_eq_0_iff_dvd)
qed

lemma DaysInYear_range: "365 \<le> DaysInYear y \<and> DaysInYear y \<le> 366"
  by (simp add: DaysInYear_def)

lemma DayFromYear_Suc: "DayFromYear (y + 1) = DayFromYear y + DaysInYear y"
proof -
  have a: "(y + 1 - 1969) div 4 = (y - 1969) div 4 + (if y mod 4 = 0 then 1 else 0)"
    using div_step [of 4 "y - 1969"] mod_shift4 [of y] by (simp add: algebra_simps)
  have b: "(y + 1 - 1901) div 100 = (y - 1901) div 100 + (if y mod 100 = 0 then 1 else 0)"
    using div_step [of 100 "y - 1901"] mod_shift100 [of y] by (simp add: algebra_simps)
  have c: "(y + 1 - 1601) div 400 = (y - 1601) div 400 + (if y mod 400 = 0 then 1 else 0)"
    using div_step [of 400 "y - 1601"] mod_shift400 [of y] by (simp add: algebra_simps)
  show ?thesis
    unfolding DayFromYear_def DaysInYear_def a b c
    using mod_4_100 [of y] mod_100_400 [of y] by auto
qed

termination yearWalk
proof (relation "measure (\<lambda>(d, y).
    if d < DayFromYear y then nat (2 * (DayFromYear y - d))
    else if DayFromYear (y + 1) \<le> d then nat (2 * (d - DayFromYear (y + 1)) + 1)
    else 0)", goal_cases)
  case 1
  show ?case by simp
next
  case (2 d y)
  then show ?case
    using DayFromYear_Suc [of "y - 1"] DaysInYear_range [of "y - 1"] by auto
next
  case (3 d y)
  then show ?case
    using DayFromYear_Suc [of "y + 1"] DaysInYear_range [of "y + 1"]
    by (auto simp: add.commute)
qed

declare yearWalk.simps [simp del]

definition YearFromTime :: "int \<Rightarrow> int" where
  "YearFromTime t = yearWalk (Day t) (1970 + Day t div 365)"

definition InLeapYear :: "int \<Rightarrow> int" where
  "InLeapYear t = (if DaysInYear (YearFromTime t) = 366 then 1 else 0)"

definition DayWithinYear :: "int \<Rightarrow> int" where
  "DayWithinYear t = Day t - DayFromYear (YearFromTime t)"

definition MonthFromTime :: "int \<Rightarrow> int" where
  "MonthFromTime t =
     (let d = DayWithinYear t; l = InLeapYear t in
      if d < 31 then 0
      else if d < 59 + l then 1
      else if d < 90 + l then 2
      else if d < 120 + l then 3
      else if d < 151 + l then 4
      else if d < 181 + l then 5
      else if d < 212 + l then 6
      else if d < 243 + l then 7
      else if d < 273 + l then 8
      else if d < 304 + l then 9
      else if d < 334 + l then 10
      else 11)"

definition DateFromTime :: "int \<Rightarrow> int" where
  "DateFromTime t =
     (let d = DayWithinYear t; l = InLeapYear t; m = MonthFromTime t in
      if m = 0 then d + 1
      else if m = 1 then d - 30
      else if m = 2 then d - 58 - l
      else if m = 3 then d - 89 - l
      else if m = 4 then d - 119 - l
      else if m = 5 then d - 150 - l
      else if m = 6 then d - 180 - l
      else if m = 7 then d - 211 - l
      else if m = 8 then d - 242 - l
      else if m = 9 then d - 272 - l
      else if m = 10 then d - 303 - l
      else d - 333 - l)"

text \<open>
  \<open>MakeDay\<close> carries months outside 0..11 into the year, finds the first day of that
  month and adds the day of the month, whatever its size: this is what rolls the 30th of
  February over into March. \<open>monthStart\<close> is the day within the year on which a month
  begins (lemma \<open>monthStart_first\<close>: it is the day the specification asks for).
\<close>

definition monthStart :: "int \<Rightarrow> int \<Rightarrow> int" where
  "monthStart l mn =
     (if mn = 0 then 0
      else if mn = 1 then 31
      else if mn = 2 then 59 + l
      else if mn = 3 then 90 + l
      else if mn = 4 then 120 + l
      else if mn = 5 then 151 + l
      else if mn = 6 then 181 + l
      else if mn = 7 then 212 + l
      else if mn = 8 then 243 + l
      else if mn = 9 then 273 + l
      else if mn = 10 then 304 + l
      else 334 + l)"

definition MakeDay :: "int \<Rightarrow> int \<Rightarrow> int \<Rightarrow> int" where
  "MakeDay year month date =
     (let ym = year + month div 12;
          mn = month mod 12;
          l = (if DaysInYear ym = 366 then 1 else 0)
      in DayFromYear ym + monthStart l mn + date - 1)"

definition MakeDate :: "int \<Rightarrow> int \<Rightarrow> int" where
  "MakeDate day time = day * msPerDay + time"

text \<open>A time value outside the range of \<^verbatim>\<open>Date\<close> is NaN, written \<open>None\<close>.\<close>

definition TimeClip :: "int \<Rightarrow> int option" where
  "TimeClip t = (if \<bar>t\<bar> > 8640000000000000 then None else Some t)"


text \<open>
  The time zone of the host is a parameter, the \<open>LocalTZA(t, isUTC)\<close> of the language
  specification: \<open>z t True\<close> is the offset of local time from UTC, in milliseconds, at the
  UTC time \<open>t\<close>, and \<open>z t False\<close> is the offset with which the local time \<open>t\<close> is read. A
  local time that a transition of the zone skips is read with the offset before the
  transition. \<^verbatim>\<open>new Date(year, month, day)\<close> takes its arguments as local time and the
  getters \<^verbatim>\<open>getFullYear\<close>, \<^verbatim>\<open>getMonth\<close> and \<^verbatim>\<open>getDate\<close> give local time.
\<close>

type_synonym zone = "int \<Rightarrow> bool \<Rightarrow> int"

definition LocalTime :: "zone \<Rightarrow> int \<Rightarrow> int" where
  "LocalTime z t = t + z t True"

definition UTC :: "zone \<Rightarrow> int \<Rightarrow> int" where
  "UTC z t = t - z t False"

text \<open>
  \<^verbatim>\<open>new Date(year, month, day)\<close>: a year from 0 to 99 stands for 1900 + year; the
  time within the day is zero.
\<close>

definition Date_ymd :: "zone \<Rightarrow> int \<Rightarrow> int \<Rightarrow> int \<Rightarrow> int option" where
  "Date_ymd z year month day =
     (let yr = (if 0 \<le> year \<and> year \<le> 99 then 1900 + year else year)
      in TimeClip (UTC z (MakeDate (MakeDay yr month day) 0)))"

definition getFullYear :: "zone \<Rightarrow> int \<Rightarrow> int" where
  "getFullYear z tv = YearFromTime (LocalTime z tv)"

definition getMonth :: "zone \<Rightarrow> int \<Rightarrow> int" where
  "getMonth z tv = MonthFromTime (LocalTime z tv)"

definition getDate :: "zone \<Rightarrow> int \<Rightarrow> int" where
  "getDate z tv = DateFromTime (LocalTime z tv)"

section \<open>Validation middleware\<close>



text \<open>\<^verbatim>\<open>/^\d{4}-\d{2}-\d{2}$/.test(s)\<close>\<close>

fun dateRegex :: "string \<Rightarrow> bool" where
  "dateRegex [y1, y2, y3, y4, p, m1, m2, q, d1, d2] =
     (isDigit y1 \<and> isDigit y2 \<and> isDigit y3 \<and> isDigit y4 \<and> p = CHR ''-''
      \<and> isDigit m1 \<and> isDigit m2 \<and> q = CHR ''-'' \<and> isDigit d1 \<and> isDigit d2)"
| "dateRegex s = False"

text \<open>
  The regular expression is tested on the trimmed string and the parts are split off
  the string as given; the destructuring takes the first three parts. A part that is
  missing or not a number makes the date NaN, and no comparison with NaN holds. The
  validator reads the zone of the host (\<open>z\<close>) through \<^verbatim>\<open>Date\<close>.
\<close>

definition validateDateFormat :: "zone \<Rightarrow> jsval \<Rightarrow> bool" where
  "validateDateFormat z date =
     (if \<not> truthy date \<or> typeof date \<noteq> ''string'' then False
      else (case date of
        JStr s \<Rightarrow>
          if \<not> dateRegex (trim s) then False
          else (case map Number (split CHR ''-'' s) of
            Some year # Some month # Some day # rest \<Rightarrow>
              (case Date_ymd z year (month - 1) day of
                 None \<Rightarrow> False
               | Some parsedDate \<Rightarrow>
                   getFullYear z parsedDate = year \<and>
                   getMonth z parsedDate = month - 1 \<and>
                   getDate z parsedDate = day)
          | _ \<Rightarrow> False)
      | _ \<Rightarrow> False))"

section \<open>Calendar dates\<close>

text \<open>
  The Gregorian calendar in the words of the specification: a date is real when its
  month is 1 to 12 and its day is 1 to the length of that month in that year. A string
  matches \<^verbatim>\<open>YYYY-MM-DD\<close> when it is four digits, a dash, two digits, a dash and two digits;
  \<open>parseYMD\<close> gives its three numbers. \<open>isValidDate_spec\<close> is the validator as section 4.3
  of the specification states it, to be compared with \<open>validateDateFormat\<close>.
\<close>

definition isLeapYear :: "int \<Rightarrow> bool" where
  "isLeapYear y = (if y mod 400 = 0 then True else if y mod 100 = 0 then False else y mod 4 = 0)"

definition daysInMonth :: "int \<Rightarrow> int \<Rightarrow> int" where
  "daysInMonth y m =
     (if m = 2 then (if isLeapYear y then 29 else 28)
      else if m = 4 \<or> m = 6 \<or> m = 9 \<or> m = 11 then 30
      else 31)"






text \<open>
  Zones for the examples: a zone with one offset at all times, and the zone of Apia
  (Samoa) around the end of 2011, which went from 10 hours behind UTC to 14 hours ahead
  at 10:00 UTC on 30 December 2011 and so had no 30 December.
\<close>

definition fixedZone :: "int \<Rightarrow> zone" where
  "fixedZone c = (\<lambda>t isUTC. c)"


section \<open>Data model\<close>

text \<open>
  The three collections of the document store, as the schemas of \<^verbatim>\<open>server.js\<close> declare
  them. A user and a time-off request are records of the schema's fields. A schedule is
  kept as the document itself, a list of keys and values with the keys \<^verbatim>\<open>_id\<close>,
  \<^verbatim>\<open>userId\<close> and the seven weekdays. A collection is a list in insertion order. The
  description of a time-off request is optional: \<open>JUndefined\<close> is a record without one.
\<close>

type_synonym oid = nat

record user =
  user_id :: oid
  username :: string
  password :: string
  email :: string
  user_createdAt :: int

type_synonym document = "(string \<times> jsval) list"

record timeOff =
  timeOff_id :: oid
  userId :: oid
  toType :: string
  startDate :: string
  endDate :: string
  description :: jsval
  status :: string
  createdAt :: int

record store =
  users :: "user list"
  schedules :: "document list"
  timeOffs :: "timeOff list"

definition emptyStore :: store where
  "emptyStore = \<lparr>users = [], schedules = [], timeOffs = []\<rparr>"

text \<open>
  Modelled from the spec: the session token of section 4.2, which the package
  \<^verbatim>\<open>jsonwebtoken\<close> builds and reads. A token carries the user id and the times of its
  issuance and of its expiry, and a signature; any other string is no token.
\<close>

record jwt_claims =
  jwt_userId :: oid
  iat :: int
  exp :: int

datatype token = Garbage string | Jwt jwt_claims string

text \<open>
  What a request meets outside the program: the host and the libraries (\<open>platform\<close>)
  and what one request reads from its surroundings (\<open>env\<close>).

  The platform holds the signing key and the signature function of the tokens, the two
  functions of \<^verbatim>\<open>bcryptjs\<close> on strings, the time zone of the host, and the date parser of
  the engine for strings outside the ECMAScript format (\<open>date_fallback\<close>). The remaining
  fields stand for what the libraries do in corners that this development does not write
  out; the theorems hold whatever they are:
  \<^item> \<open>numberToString\<close>: the decimal string of a number (\<^verbatim>\<open>Number.prototype.toString\<close>);
  \<^item> \<open>objectId12\<close>: the \<^verbatim>\<open>ObjectId\<close> of a string of 12 characters, which older versions
    of the driver read as 12 bytes and newer ones reject (\<open>None\<close>);
  \<^item> \<open>userQuery\<close>: \<^verbatim>\<open>User.findOne(filter)\<close> for a filter with a value that is no string
    (the document layer casts it, and reads an object as query operators);
    \<open>None\<close> is a call that throws;
  \<^item> \<open>castUpdateObject\<close>: what an update makes of an object given for a string path
    (\<open>None\<close>: it throws; \<open>JUndefined\<close>: the path is left out of the update);
  \<^item> \<open>exoticSet\<close>: what \<^verbatim>\<open>Schedule.findOneAndUpdate\<close> makes of a \<^verbatim>\<open>$set\<close> document with
    entries outside the part written out below (\<open>modelled\<close>): \<open>None\<close> when the call throws
    before it reaches the database, else the new document for a stored one, or \<open>None\<close>
    when the database refuses the update.

  The environment holds the clock in milliseconds, the identifiers that
  \<^verbatim>\<open>new Model(...)\<close> draws, the salt that \<^verbatim>\<open>bcrypt.genSalt\<close> draws, and whether the \<open>k\<close>-th
  awaited call of the handler fails for a reason outside the request (the database is
  unreachable, say). Every handler body is inside \<^verbatim>\<open>try { ... } catch\<close>, and a call that
  throws is answered with status 500.
\<close>

record platform =
  JWT_SECRET :: string
  hmac :: "string \<Rightarrow> jwt_claims \<Rightarrow> string"
  bcrypt_hash :: "string \<Rightarrow> string \<Rightarrow> string"
  bcrypt_compare :: "string \<Rightarrow> string \<Rightarrow> bool"
  localTZA :: zone
  date_fallback :: "string \<Rightarrow> int option"
  numberToString :: "rat \<Rightarrow> string"
  objectId12 :: "string \<Rightarrow> oid option"
  userQuery :: "jsval \<Rightarrow> user list \<Rightarrow> user option option"
  castUpdateObject :: "string \<Rightarrow> (string \<times> jsval) list \<Rightarrow> jsval option"
  exoticSet :: "document \<Rightarrow> (document \<Rightarrow> document option) option"

record env =
  now :: int
  newId :: "nat \<Rightarrow> oid"
  genSalt :: string
  raises :: "nat \<Rightarrow> bool"

datatype reply =
    Message string
  | AuthReply string token oid string string
  | ScheduleDoc document
  | ScheduleReply string document
  | TimeOffReply string timeOff

datatype response = Response nat reply

definition serverError :: response where
  "serverError = Response 500 (Message ''Server error'')"

section \<open>Session tokens\<close>

text \<open>
  Modelled from the spec: \<^verbatim>\<open>jwt.sign\<close> and \<^verbatim>\<open>jwt.verify\<close> of the package
  \<^verbatim>\<open>jsonwebtoken\<close>, whose code is not part of the repository. Section 4.2 of the specification: a
  token embeds the user id and an expiry 24 hours from issuance and is signed with the
  key of the process; verification fails with \<open>InvalidToken\<close> when the signature does not
  match, the token is malformed or it has expired. The signature function is a
  parameter (\<open>hmac\<close>); the clock of a token counts seconds.
\<close>

datatype token_error = InvalidToken

definition jwt_sign :: "platform \<Rightarrow> int \<Rightarrow> oid \<Rightarrow> token" where
  "jwt_sign P t uid =
     (let c = \<lparr>jwt_userId = uid, iat = t div 1000, exp = t div 1000 + 24 * 60 * 60\<rparr>
      in Jwt c (hmac P (JWT_SECRET P) c))"

text \<open>
  Modelled from the spec: \<^verbatim>\<open>jwt.verify\<close>, which checks the signature and the expiry and fails
  with \<open>InvalidToken\<close> for a malformed token, a signature that does not match, and a token
  that has expired.
\<close>

definition jwt_verify :: "platform \<Rightarrow> int \<Rightarrow> token \<Rightarrow> token_error + jwt_claims" where
  "jwt_verify P t tok =
     (case tok of
        Garbage s \<Rightarrow> Inl InvalidToken
      | Jwt c sg \<Rightarrow>
          if sg \<noteq> hmac P (JWT_SECRET P) c then Inl InvalidToken
          else if exp c \<le> t div 1000 then Inl InvalidToken
          else Inr c)"

text \<open>
  The middleware \<open>authenticate\<close> of \<^verbatim>\<open>server.js\<close>. The header is given as the token it
  carries once \<^verbatim>\<open>'Bearer '\<close> is removed; \<open>None\<close> is a missing header or an empty token.
  The result is the response of the middleware or the caller's identity \<^verbatim>\<open>req.user.id\<close>.
\<close>

definition authenticate :: "platform \<Rightarrow> env \<Rightarrow> token option \<Rightarrow> response + oid" where
  "authenticate P E header =
     (case header of
        None \<Rightarrow> Inl (Response 401 (Message ''Authentication required''))
      | Some tok \<Rightarrow>
          (case jwt_verify P (now E) tok of
             Inl err \<Rightarrow> Inl (Response 401 (Message ''Invalid or expired token''))
           | Inr decoded \<Rightarrow> Inr (jwt_userId decoded)))"

section \<open>Store operations\<close>

text \<open>
  \<^verbatim>\<open>findOne\<close> is \<open>find\<close> on the collection: the first document that matches the filter.
  \<^verbatim>\<open>findOneAndUpdate\<close> and \<^verbatim>\<open>findOneAndDelete\<close> change or remove that document and no other.
  \<open>ownedBy\<close> is the filter \<^verbatim>\<open>{ userId: req.user.id }\<close> on schedules.
\<close>

fun updateFirst :: "('a \<Rightarrow> bool) \<Rightarrow> ('a \<Rightarrow> 'a) \<Rightarrow> 'a list \<Rightarrow> 'a list" where
  "updateFirst p f [] = []"
| "updateFirst p f (x # xs) = (if p x then f x # xs else x # updateFirst p f xs)"

fun deleteFirst :: "('a \<Rightarrow> bool) \<Rightarrow> 'a list \<Rightarrow> 'a list" where
  "deleteFirst p [] = []"
| "deleteFirst p (x # xs) = (if p x then xs else x # deleteFirst p xs)"

definition ownedBy :: "oid \<Rightarrow> document \<Rightarrow> bool" where
  "ownedBy uid doc = (map_of doc ''userId'' = Some (JOid uid))"


definition defaultSchedule :: "oid \<Rightarrow> oid \<Rightarrow> document" where
  "defaultSchedule i uid =
     [(''_id'', JOid i),
      (''userId'', JOid uid),
      (''Sunday'', JObj [(''startTime'', JStr ''09:00''), (''endTime'', JStr ''17:30'')]),
      (''Monday'', JObj [(''startTime'', JStr ''09:00''), (''endTime'', JStr ''17:30'')]),
      (''Tuesday'', JObj [(''startTime'', JStr ''09:00''), (''endTime'', JStr ''17:30'')]),
      (''Wednesday'', JObj [(''startTime'', JStr ''09:00''), (''endTime'', JStr ''17:30'')]),
      (''Thursday'', JObj [(''startTime'', JStr ''09:00''), (''endTime'', JStr ''17:30'')]),
      (''Friday'', JObj [(''startTime'', JStr ''09:00''), (''endTime'', JStr ''17:30'')]),
      (''Saturday'', JObj [(''startTime'', JStr ''09:00''), (''endTime'', JStr ''17:30'')])]"

definition strOf :: "jsval \<Rightarrow> string" where
  "strOf v = (case v of JStr s \<Rightarrow> s | _ \<Rightarrow> [])"

definition days :: "string list" where
  "days = [''Sunday'', ''Monday'', ''Tuesday'', ''Wednesday'', ''Thursday'', ''Friday'', ''Saturday'']"

section \<open>The document layer\<close>

text \<open>
  The models of \<^verbatim>\<open>server.js\<close> are Mongoose models of the three schemas (lines 26 to 81).
  Mongoose casts every value to the type its schema path declares and runs the
  validators of the path (\<^verbatim>\<open>required\<close>, \<^verbatim>\<open>enum\<close>) when a document is saved and, with
  \<^verbatim>\<open>runValidators: true\<close>, on the paths of an update. Its code is not part of the repository;
  the definitions of this section follow its behaviour for these schemas. An error of
  the layer (\<^verbatim>\<open>CastError\<close>, \<^verbatim>\<open>ValidationError\<close>) is thrown by the awaited call, and the
  handler answers it with status 500.
\<close>

subsection \<open>Casting\<close>

text \<open>
  The cast to \<^verbatim>\<open>String\<close>: \<^verbatim>\<open>null\<close> and \<^verbatim>\<open>undefined\<close> stay; an object with a non-empty string
  under \<^verbatim>\<open>_id\<close> is cast to that string (the layer takes it for a document); a value with a
  \<^verbatim>\<open>toString\<close> of its own kind (string, number, boolean, \<^verbatim>\<open>ObjectId\<close>) is cast to its string;
  an array and any other object are a \<^verbatim>\<open>CastError\<close>, here \<open>None\<close>.
\<close>

fun hexDigits :: "nat \<Rightarrow> nat \<Rightarrow> string" where
  "hexDigits 0 n = []"
| "hexDigits (Suc k) n = hexDigits k (n div 16) @ [''0123456789abcdef'' ! (n mod 16)]"

fun castString :: "platform \<Rightarrow> jsval \<Rightarrow> jsval option" where
  "castString P JUndefined = Some JUndefined"
| "castString P JNull = Some JNull"
| "castString P (JBool b) = Some (JStr (if b then ''true'' else ''false''))"
| "castString P (JNum n) = Some (JStr (numberToString P n))"
| "castString P (JStr s) = Some (JStr s)"
| "castString P (JOid i) = Some (JStr (hexDigits 24 i))"
| "castString P (JArr xs) = None"
| "castString P (JObj kvs) =
     (case map_of kvs ''_id'' of
        Some (JStr s) \<Rightarrow> if s \<noteq> [] then Some (JStr s) else None
      | _ \<Rightarrow> None)"

text \<open>
  The cast of a string to \<^verbatim>\<open>ObjectId\<close>: 24 hexadecimal digits are an id; a string of 12
  characters is left to the version of the driver; any other string is a \<^verbatim>\<open>CastError\<close>.
\<close>

definition isHexDigit :: "char \<Rightarrow> bool" where
  "isHexDigit c = (c \<in> set ''0123456789abcdefABCDEF'')"

definition hexVal :: "char \<Rightarrow> nat" where
  "hexVal c =
     (if isDigit c then of_char c - 48
      else if c \<in> set ''abcdef'' then of_char c - 87
      else of_char c - 55)"

definition hexNat :: "string \<Rightarrow> nat" where
  "hexNat s = foldl (\<lambda>a c. 16 * a + hexVal c) 0 s"

definition castObjectId :: "platform \<Rightarrow> string \<Rightarrow> oid option" where
  "castObjectId P s =
     (if length s = 24 \<and> list_all isHexDigit s then Some (hexNat s)
      else if length s = 12 then objectId12 P s
      else None)"

text \<open>The validator \<^verbatim>\<open>required\<close> of a string path: the value is a string and not empty.\<close>

definition requiredString :: "jsval \<Rightarrow> string option" where
  "requiredString v = (case v of JStr s \<Rightarrow> if s \<noteq> [] then Some s else None | _ \<Rightarrow> None)"

subsection \<open>Time-off documents\<close>

text \<open>The values that \<open>timeOffSchema\<close> enumerates for \<^verbatim>\<open>type\<close>.\<close>

definition typeValues :: "string list" where
  "typeValues = [''vacation'', ''dayOff'', ''sickLeave'', ''other'']"

text \<open>
  \<^verbatim>\<open>new TimeOff({userId, type, startDate, endDate, description})\<close> and the validation that
  \<^verbatim>\<open>save()\<close> runs: the four values are cast to strings; \<open>type\<close>, \<open>startDate\<close> and \<open>endDate\<close>
  are required and \<open>type\<close> must be one of the enumerated values; the status and the
  creation time take their defaults. \<open>None\<close> is a document that \<^verbatim>\<open>save()\<close> rejects.
\<close>

definition newTimeOff :: "platform \<Rightarrow> env \<Rightarrow> oid \<Rightarrow> jsval \<Rightarrow> jsval \<Rightarrow> jsval \<Rightarrow> jsval
    \<Rightarrow> timeOff option" where
  "newTimeOff P E uid type startDate' endDate' description' =
     (case Option.bind (castString P type) requiredString of
        None \<Rightarrow> None
      | Some ty \<Rightarrow>
     (case Option.bind (castString P startDate') requiredString of
        None \<Rightarrow> None
      | Some sd \<Rightarrow>
     (case Option.bind (castString P endDate') requiredString of
        None \<Rightarrow> None
      | Some ed \<Rightarrow>
     (case castString P description' of
        None \<Rightarrow> None
      | Some d \<Rightarrow>
          if ty \<in> set typeValues
          then Some \<lparr>timeOff_id = newId E 0, userId = uid, toType = ty, startDate = sd,
                 endDate = ed, description = d, status = ''pending'', createdAt = now E\<rparr>
          else None))))"

text \<open>
  The update document \<^verbatim>\<open>{ type, startDate, endDate, description }\<close> of
  \<^verbatim>\<open>TimeOff.findOneAndUpdate\<close>: each value is cast to a string; a path whose value is
  \<^verbatim>\<open>undefined\<close> is left out of the update, so the stored value stays; the validators run on
  the paths that are in the update. \<open>None\<close> is an update that the layer rejects, otherwise
  the result is the change made to the stored record.
\<close>

definition castUpdateField :: "platform \<Rightarrow> string \<Rightarrow> jsval \<Rightarrow> jsval option" where
  "castUpdateField P path v =
     (case v of JObj kvs \<Rightarrow> castUpdateObject P path kvs | _ \<Rightarrow> castString P v)"

definition inUpdate :: "jsval \<Rightarrow> bool" where
  "inUpdate v = (v \<noteq> JUndefined)"

definition written :: "jsval \<Rightarrow> string \<Rightarrow> string" where
  "written v old = (if inUpdate v then strOf v else old)"

definition applyTimeOffUpdate :: "jsval \<Rightarrow> jsval \<Rightarrow> jsval \<Rightarrow> jsval \<Rightarrow> timeOff \<Rightarrow> timeOff" where
  "applyTimeOffUpdate ty sd ed d old =
     old\<lparr>toType := written ty (toType old), startDate := written sd (startDate old),
         endDate := written ed (endDate old),
         description := (if inUpdate d then d else description old)\<rparr>"

definition timeOffUpdate :: "platform \<Rightarrow> jsval \<Rightarrow> jsval \<Rightarrow> jsval \<Rightarrow> jsval
    \<Rightarrow> (timeOff \<Rightarrow> timeOff) option" where
  "timeOffUpdate P type startDate' endDate' description' =
     (case castUpdateField P ''type'' type of
        None \<Rightarrow> None
      | Some ty \<Rightarrow>
     (case castUpdateField P ''startDate'' startDate' of
        None \<Rightarrow> None
      | Some sd \<Rightarrow>
     (case castUpdateField P ''endDate'' endDate' of
        None \<Rightarrow> None
      | Some ed \<Rightarrow>
     (case castUpdateField P ''description'' description' of
        None \<Rightarrow> None
      | Some d \<Rightarrow>
          if (inUpdate ty \<and> (requiredString ty = None \<or> strOf ty \<notin> set typeValues))
             \<or> (inUpdate sd \<and> requiredString sd = None)
             \<or> (inUpdate ed \<and> requiredString ed = None)
          then None
          else Some (applyTimeOffUpdate ty sd ed d)))))"

subsection \<open>Schedule updates\<close>

text \<open>
  \<^verbatim>\<open>Schedule.findOneAndUpdate({ userId }, { $set: body }, { new: true, runValidators: true })\<close>.
  The schema is strict, so an entry of the update whose key the schema does not declare
  is removed before the update reaches the database. A weekday of the schema is a nested
  path with two required strings: the update of a weekday is valid when its value is an
  object whose \<open>startTime\<close> and \<open>endTime\<close>, cast to strings, are not empty; a start or end
  time that is missing, \<^verbatim>\<open>null\<close> or empty, and a weekday that is no object, fail the
  validator \<^verbatim>\<open>required\<close>. The key \<^verbatim>\<open>userId\<close> is declared by the schema and is written, cast
  to an \<^verbatim>\<open>ObjectId\<close>.

  This is written out for the bodies that are \<open>modelled\<close>: each entry is a weekday (whose
  object has, besides the two times, only keys that strict mode removes), a \<open>userId\<close>
  given as a string, or an entry that strict mode removes (a plain key that the schema
  does not declare, with a value that is no object). For any other body (a dotted path,
  an operator, \<^verbatim>\<open>_id\<close>, \<^verbatim>\<open>__v\<close>, an object under an undeclared key) the outcome is that of
  \<open>exoticSet\<close>.
\<close>

fun isObject :: "jsval \<Rightarrow> bool" where
  "isObject (JObj kvs) = True"
| "isObject v = False"

fun isString :: "jsval \<Rightarrow> bool" where
  "isString (JStr s) = True"
| "isString v = False"













section \<open>Authentication routes\<close>

text \<open>
  A handler is a function of the values that it reads from the request (the fields of
  the JSON body, the id of the path, the identity that \<open>authenticate\<close> has found) and of the
  store; it returns its response and the store it leaves.

  The fields \<open>username\<close>, \<open>email\<close> and \<open>password\<close> of a body are any JSON values. The
  filter of a \<^verbatim>\<open>findOne\<close> is matched here when its values are strings, and is left to
  \<open>userQuery\<close> otherwise. \<^verbatim>\<open>bcrypt.hash\<close> and \<^verbatim>\<open>bcrypt.compare\<close> of \<^verbatim>\<open>bcryptjs\<close> reject an
  argument that is no string (\<^verbatim>\<open>Illegal arguments\<close>), which the handler answers with status
  500. The awaited calls of the registration are numbered 0 to 4: \<^verbatim>\<open>findOne\<close>, \<^verbatim>\<open>genSalt\<close>,
  \<^verbatim>\<open>hash\<close>, \<^verbatim>\<open>user.save\<close> and \<^verbatim>\<open>defaultSchedule.save\<close>; when the last one throws, the user
  has been stored already. Those of the login are \<^verbatim>\<open>findOne\<close> and \<^verbatim>\<open>compare\<close>.
\<close>

text \<open>The filter \<^verbatim>\<open>{ $or: [{ email }, { username }] }\<close> of the registration.\<close>

definition userTaken :: "string \<Rightarrow> string \<Rightarrow> user \<Rightarrow> bool" where
  "userTaken email' username' u = (email u = email' \<or> username u = username')"

definition findTaken :: "platform \<Rightarrow> jsval \<Rightarrow> jsval \<Rightarrow> user list \<Rightarrow> user option option" where
  "findTaken P email' username' us =
     (if isString email' \<and> isString username'
      then Some (find (userTaken (strOf email') (strOf username')) us)
      else userQuery P
        (JObj [(''$or'', JArr [JObj [(''email'', email')], JObj [(''username'', username')]])]) us)"

text \<open>
  \<^verbatim>\<open>new User({ username, email, password: hashedPassword })\<close> and \<^verbatim>\<open>user.save()\<close>: the
  username and the email are cast to strings and are required; both are unique, so the
  database refuses a user whose username or email is stored already.
\<close>

definition newUser :: "platform \<Rightarrow> env \<Rightarrow> jsval \<Rightarrow> jsval \<Rightarrow> string \<Rightarrow> user list \<Rightarrow> user option" where
  "newUser P E username' email' hashedPassword us =
     (case Option.bind (castString P username') requiredString of
        None \<Rightarrow> None
      | Some name \<Rightarrow>
          (case Option.bind (castString P email') requiredString of
             None \<Rightarrow> None
           | Some mail \<Rightarrow>
               if find (userTaken mail name) us = None \<and> hashedPassword \<noteq> []
               then Some \<lparr>user_id = newId E 0, username = name, password = hashedPassword,
                      email = mail, user_createdAt = now E\<rparr>
               else None))"

definition register :: "platform \<Rightarrow> env \<Rightarrow> jsval \<Rightarrow> jsval \<Rightarrow> jsval \<Rightarrow> store \<Rightarrow> response \<times> store" where
  "register P E username' email' password' st =
     (if \<not> truthy username' \<or> \<not> truthy email' \<or> \<not> truthy password'
      then (Response 400 (Message ''All fields are required''), st)
      else if raises E 0 then (serverError, st)
      else (case findTaken P email' username' (users st) of
        None \<Rightarrow> (serverError, st)
      | Some (Some existingUser) \<Rightarrow> (Response 400 (Message ''User already exists''), st)
      | Some None \<Rightarrow>
          if raises E 1 \<or> \<not> isString password' \<or> raises E 2 then (serverError, st)
          else
            (case newUser P E username' email' (bcrypt_hash P (strOf password') (genSalt E)) (users st) of
               None \<Rightarrow> (serverError, st)
             | Some user \<Rightarrow>
                 if raises E 3 then (serverError, st)
                 else
                   (let st1 = st\<lparr>users := users st @ [user]\<rparr>
                    in if raises E 4 then (serverError, st1)
                       else
                         (Response 201 (AuthReply ''User registered successfully''
                             (jwt_sign P (now E) (user_id user)) (user_id user) (username user) (email user)),
                          st1\<lparr>schedules := schedules st1 @ [defaultSchedule (newId E 1) (user_id user)]\<rparr>)))))"

text \<open>The filter \<^verbatim>\<open>{ username }\<close> of the login.\<close>

definition userNamed :: "string \<Rightarrow> user \<Rightarrow> bool" where
  "userNamed name u = (username u = name)"

definition findUser :: "platform \<Rightarrow> jsval \<Rightarrow> user list \<Rightarrow> user option option" where
  "findUser P username' us =
     (case username' of
        JStr name \<Rightarrow> Some (find (userNamed name) us)
      | _ \<Rightarrow> userQuery P (JObj [(''username'', username')]) us)"

definition login :: "platform \<Rightarrow> env \<Rightarrow> jsval \<Rightarrow> jsval \<Rightarrow> store \<Rightarrow> response \<times> store" where
  "login P E username' password' st =
     (if \<not> truthy username' \<or> \<not> truthy password'
      then (Response 400 (Message ''All fields are required''), st)
      else if raises E 0 then (serverError, st)
      else (case findUser P username' (users st) of
        None \<Rightarrow> (serverError, st)
      | Some None \<Rightarrow> (Response 400 (Message ''Invalid credentials''), st)
      | Some (Some user) \<Rightarrow>
          if \<not> isString password' \<or> raises E 1 then (serverError, st)
          else if \<not> bcrypt_compare P (strOf password') (password user)
          then (Response 400 (Message ''Invalid credentials''), st)
          else
            (Response 200 (AuthReply ''Login successful''
                (jwt_sign P (now E) (user_id user)) (user_id user) (username user) (email user)),
             st)))"

section \<open>Schedule routes\<close>

text \<open>
  The fetch awaits \<^verbatim>\<open>findOne\<close> (call 0) and, when it creates the default schedule,
  \<^verbatim>\<open>save\<close> (call 1). The update awaits \<^verbatim>\<open>findOneAndUpdate\<close> only, after its checks.
\<close>

definition get_schedule :: "env \<Rightarrow> oid \<Rightarrow> store \<Rightarrow> response \<times> store" where
  "get_schedule E uid st =
     (if raises E 0 then (serverError, st)
      else (case find (ownedBy uid) (schedules st) of
        None \<Rightarrow>
          (let doc = defaultSchedule (newId E 0) uid
           in if raises E 1 then (serverError, st)
              else (Response 200 (ScheduleDoc doc), st\<lparr>schedules := schedules st @ [doc]\<rparr>))
      | Some schedule \<Rightarrow> (Response 200 (ScheduleDoc schedule), st)))"



section \<open>Time off routes\<close>

text \<open>
  \<^verbatim>\<open>new Date(s)\<close> for a string: a string in the date-only form of the ECMAScript
  date-time format is midnight UTC of that day; for any other string the language leaves
  the result to the implementation (\<open>date_fallback\<close>). \<open>None\<close> is an invalid date, with
  which no comparison holds.
\<close>

definition isoDate :: "string \<Rightarrow> (int \<times> int \<times> int) option" where
  "isoDate s =
     (if dateRegex s
      then (let y = decimal (take 4 s); m = decimal (take 2 (drop 5 s)); d = decimal (take 2 (drop 8 s))
            in if 1 \<le> m \<and> m \<le> 12 \<and> 1 \<le> d \<and> d \<le> daysInMonth y m then Some (y, m, d) else None)
      else None)"

definition Date_parse :: "platform \<Rightarrow> string \<Rightarrow> int option" where
  "Date_parse P s =
     (case isoDate s of
        Some (y, m, d) \<Rightarrow> TimeClip (MakeDate (MakeDay y (m - 1) d) 0)
      | None \<Rightarrow> date_fallback P s)"

fun Date_gt :: "int option \<Rightarrow> int option \<Rightarrow> bool" where
  "Date_gt (Some a) (Some b) = (a > b)"
| "Date_gt a b = False"


text \<open>
  The validation of a time-off body: lines 325 to 352 of the create handler and, word
  for word, lines 377 to 404 of the update handler. The result is the response of an
  early return or \<open>finalEndDate\<close>.
\<close>

definition timeOffValidation :: "platform \<Rightarrow> jsval \<Rightarrow> jsval \<Rightarrow> jsval \<Rightarrow> response + jsval" where
  "timeOffValidation P type startDate' endDate' =
     (if \<not> truthy type \<or> \<not> truthy startDate'
      then Inl (Response 400 (Message ''Type and start date are required''))
      else if \<not> validateDateFormat (localTZA P) startDate'
      then Inl (Response 400 (Message ''Invalid start date format. Use YYYY-MM-DD''))
      else if type = JStr ''dayOff'' then Inr startDate'
      else if \<not> truthy endDate'
      then Inl (Response 400 (Message ''End date is required for vacation''))
      else if \<not> validateDateFormat (localTZA P) endDate'
      then Inl (Response 400 (Message ''Invalid end date format. Use YYYY-MM-DD''))
      else if Date_gt (Date_parse P (strOf startDate')) (Date_parse P (strOf endDate'))
      then Inl (Response 400 (Message ''End date must be after start date''))
      else Inr endDate')"

text \<open>
  The create handler builds the document from the body and \<open>finalEndDate\<close> and saves it
  (call 0); a document that the validation of \<^verbatim>\<open>save()\<close> rejects is answered with
  status 500, like a failure of the database.
\<close>

definition post_timeoff :: "platform \<Rightarrow> env \<Rightarrow> oid \<Rightarrow> jsval \<Rightarrow> jsval \<Rightarrow> jsval \<Rightarrow> jsval
    \<Rightarrow> store \<Rightarrow> response \<times> store" where
  "post_timeoff P E uid type startDate' endDate' description' st =
     (case timeOffValidation P type startDate' endDate' of
        Inl r \<Rightarrow> (r, st)
      | Inr finalEndDate \<Rightarrow>
          (case newTimeOff P E uid type startDate' finalEndDate description' of
             None \<Rightarrow> (serverError, st)
           | Some timeOff \<Rightarrow>
               if raises E 0 then (serverError, st)
               else
                 (Response 201 (TimeOffReply ''Time off request created successfully'' timeOff),
                  st\<lparr>timeOffs := timeOffs st @ [timeOff]\<rparr>)))"

text \<open>
  The filter \<^verbatim>\<open>{ _id: id, userId: req.user.id }\<close> of the update and the delete. The id is
  the string of the path \<^verbatim>\<open>/api/timeoff/:id\<close>; the document layer casts it to an
  \<^verbatim>\<open>ObjectId\<close> and throws when it is none.
\<close>

definition ownTimeOff :: "oid \<Rightarrow> oid \<Rightarrow> timeOff \<Rightarrow> bool" where
  "ownTimeOff i uid t = (timeOff_id t = i \<and> userId t = uid)"

definition put_timeoff :: "platform \<Rightarrow> env \<Rightarrow> oid \<Rightarrow> string \<Rightarrow> jsval \<Rightarrow> jsval \<Rightarrow> jsval \<Rightarrow> jsval
    \<Rightarrow> store \<Rightarrow> response \<times> store" where
  "put_timeoff P E uid id' type startDate' endDate' description' st =
     (case timeOffValidation P type startDate' endDate' of
        Inl r \<Rightarrow> (r, st)
      | Inr finalEndDate \<Rightarrow>
          (case castObjectId P id' of
             None \<Rightarrow> (serverError, st)
           | Some i \<Rightarrow>
               (case timeOffUpdate P type startDate' finalEndDate description' of
                  None \<Rightarrow> (serverError, st)
                | Some change \<Rightarrow>
                    if raises E 0 then (serverError, st)
                    else
                      (case find (ownTimeOff i uid) (timeOffs st) of
                         None \<Rightarrow> (Response 404 (Message ''Time off request not found''), st)
                       | Some old \<Rightarrow>
                           (Response 200 (TimeOffReply ''Time off request updated successfully'' (change old)),
                            st\<lparr>timeOffs := updateFirst (ownTimeOff i uid) change (timeOffs st)\<rparr>)))))"

definition delete_timeoff :: "platform \<Rightarrow> env \<Rightarrow> oid \<Rightarrow> string \<Rightarrow> store \<Rightarrow> response \<times> store" where
  "delete_timeoff P E uid id' st =
     (case castObjectId P id' of
        None \<Rightarrow> (serverError, st)
      | Some i \<Rightarrow>
          if raises E 0 then (serverError, st)
          else
            (case find (ownTimeOff i uid) (timeOffs st) of
               None \<Rightarrow> (Response 404 (Message ''Time off request not found''), st)
             | Some old \<Rightarrow>
                 (Response 200 (Message ''Time off request deleted successfully''),
                  st\<lparr>timeOffs := deleteFirst (ownTimeOff i uid) (timeOffs st)\<rparr>)))"

section \<open>What the claims speak of\<close>


text \<open>
  The invariant of the time-off collection: the records of type \<^verbatim>\<open>dayOff\<close> end on the day
  they start.
\<close>

definition dayOffInvariant :: "store \<Rightarrow> bool" where
  "dayOffInvariant st =
     list_all (\<lambda>t. endDate t = startDate t) (filter (\<lambda>t. toType t = ''dayOff'') (timeOffs st))"

text \<open>The default working hours of a day.\<close>

definition defaultDay :: jsval where
  "defaultDay = JObj [(''startTime'', JStr ''09:00''), (''endTime'', JStr ''17:30'')]"









text \<open>The responses that the claims name.\<close>

definition invalidCredentials :: response where
  "invalidCredentials = Response 400 (Message ''Invalid credentials'')"

definition invalidToken :: response where
  "invalidToken = Response 401 (Message ''Invalid or expired token'')"

definition timeOffNotFound :: response where
  "timeOffNotFound = Response 404 (Message ''Time off request not found'')"


subsection \<open>Examples\<close>

text \<open>
  A platform and an environment to run the handlers on examples: the default signing
  key of \<^verbatim>\<open>server.js\<close>, stand-ins for the signature and the password hash, a host in UTC, a
  date parser that knows the ECMAScript format only, and libraries that throw in the
  corners left open above (no example enters one, nor turns a number into a string); no
  call fails for outside reasons. \<open>laterEnv\<close> is 24 hours later; in \<open>failingEnv\<close> the
  database is unreachable. \<open>nodePlatform\<close> is a host two hours ahead of UTC whose engine
  reads dates outside the ECMAScript format as V8 does.
\<close>

definition demoPlatform :: platform where
  "demoPlatform = \<lparr>JWT_SECRET = ''your_jwt_secret_key'', hmac = (\<lambda>k c. k),
     bcrypt_hash = (\<lambda>p s. s @ p), bcrypt_compare = (\<lambda>p h. h = ''salt'' @ p),
     localTZA = fixedZone 0, date_fallback = (\<lambda>s. None), numberToString = (\<lambda>n. ''0''),
     objectId12 = (\<lambda>s. None), userQuery = (\<lambda>f us. None), castUpdateObject = (\<lambda>p kvs. None),
     exoticSet = (\<lambda>b. None)\<rparr>"


definition demoEnv :: env where
  "demoEnv = \<lparr>now = 1714521600000, newId = (\<lambda>k. 100 + k), genSalt = ''salt'', raises = (\<lambda>k. False)\<rparr>"

definition laterEnv :: env where
  "laterEnv = demoEnv\<lparr>now := now demoEnv + 86400000\<rparr>"

definition failingEnv :: env where
  "failingEnv = demoEnv\<lparr>raises := (\<lambda>k. True)\<rparr>"

text \<open>
  The store after user 2 has asked for a vacation (the record gets the id 100, in
  hexadecimal 64), and after alice has registered.
\<close>

definition storeOfOther :: store where
  "storeOfOther = snd (post_timeoff demoPlatform demoEnv 2 (JStr ''vacation'') (JStr ''2024-05-01'')
     (JStr ''2024-05-03'') (JStr ''trip'') emptyStore)"

definition id100 :: string where
  "id100 = ''000000000000000000000064''"

definition aliceStore :: store where
  "aliceStore = snd (register demoPlatform demoEnv (JStr ''alice'') (JStr ''alice@example.org'')
     (JStr ''secret'') emptyStore)"








section \<open>Facts about dates\<close>

lemma yearWalk_bounds: "DayFromYear (yearWalk d y) \<le> d \<and> d < DayFromYear (yearWalk d y + 1)"
proof (induction d y rule: yearWalk.induct)
  case (1 d y)
  then show ?case by (subst yearWalk.simps, subst (2) yearWalk.simps) auto
qed

lemma DayFromYear_mono_nat: "DayFromYear y + 365 * int n \<le> DayFromYear (y + int n)"
proof (induction n)
  case 0
  show ?case by simp
next
  case (Suc n)
  have "DayFromYear (y + int (Suc n)) = DayFromYear (y + int n) + DaysInYear (y + int n)"
    using DayFromYear_Suc [of "y + int n"] by (simp add: ac_simps)
  then show ?case using Suc DaysInYear_range [of "y + int n"] by simp
qed

lemma DayFromYear_mono: "y \<le> z \<Longrightarrow> DayFromYear y + 365 * (z - y) \<le> DayFromYear z"
  using DayFromYear_mono_nat [of y "nat (z - y)"] by simp

lemma year_unique:
  assumes "DayFromYear y \<le> d" "d < DayFromYear (y + 1)"
    and "DayFromYear z \<le> d" "d < DayFromYear (z + 1)"
  shows "y = z"
proof (rule ccontr)
  assume "y \<noteq> z"
  then consider "y + 1 \<le> z" | "z + 1 \<le> y" by linarith
  then show False
  proof cases
    case 1
    then show ?thesis using DayFromYear_mono [of "y + 1" z] assms by simp
  next
    case 2
    then show ?thesis using DayFromYear_mono [of "z + 1" y] assms by simp
  qed
qed

lemma Day_MakeDate: "Day (MakeDate d 0) = d"
  by (simp add: Day_def MakeDate_def msPerDay_def)

lemma YearFromTime_bounds:
  "TimeFromYear (YearFromTime t) \<le> t \<and> t < TimeFromYear (YearFromTime t + 1)"
proof -
  have "DayFromYear (YearFromTime t) \<le> t div 86400000 \<and> t div 86400000 < DayFromYear (YearFromTime t + 1)"
    using yearWalk_bounds [of "Day t"] by (simp add: YearFromTime_def Day_def msPerDay_def)
  then show ?thesis
    unfolding TimeFromYear_def msPerDay_def by linarith
qed

lemma YearFromTime_unique:
  assumes "TimeFromYear y \<le> t" "t < TimeFromYear (y + 1)"
  shows "YearFromTime t = y"
proof -
  have a: "DayFromYear y \<le> Day t" "Day t < DayFromYear (y + 1)"
    using assms unfolding TimeFromYear_def Day_def msPerDay_def by linarith+
  show ?thesis
    unfolding YearFromTime_def
    using year_unique [OF _ _ a] yearWalk_bounds [of "Day t"] by blast
qed

lemma YearFromTime_day:
  assumes "DayFromYear y \<le> d" "d < DayFromYear y + DaysInYear y"
  shows "YearFromTime (MakeDate d 0) = y"
proof (rule YearFromTime_unique)
  show "TimeFromYear y \<le> MakeDate d 0"
    using assms by (simp add: TimeFromYear_def MakeDate_def msPerDay_def)
  show "MakeDate d 0 < TimeFromYear (y + 1)"
    using assms by (simp add: TimeFromYear_def MakeDate_def msPerDay_def DayFromYear_Suc)
qed

lemma isLeapYear_DaysInYear: "isLeapYear y \<longleftrightarrow> DaysInYear y = 366"
  using mod_4_100 [of y] mod_100_400 [of y] by (auto simp: isLeapYear_def DaysInYear_def)

lemma DaysInYear_leap: "DaysInYear y = 365 + (if isLeapYear y then 1 else 0)"
  using mod_4_100 [of y] mod_100_400 [of y] by (auto simp: isLeapYear_def DaysInYear_def)

lemma month_cases:
  fixes m :: int
  assumes "0 \<le> m" "m \<le> 11"
  shows "m = 0 \<or> m = 1 \<or> m = 2 \<or> m = 3 \<or> m = 4 \<or> m = 5 \<or> m = 6 \<or> m = 7
    \<or> m = 8 \<or> m = 9 \<or> m = 10 \<or> m = 11"
  using assms by arith


lemma InLeapYear_eq: "InLeapYear t = (if isLeapYear (YearFromTime t) then 1 else 0)"
  by (simp add: InLeapYear_def isLeapYear_DaysInYear)



lemma MakeDay_in_year:
  assumes "0 \<le> m" "m \<le> 11"
  shows "MakeDay y m d = DayFromYear y + monthStart (if isLeapYear y then 1 else 0) m + d - 1"
  using assms by (simp add: MakeDay_def isLeapYear_DaysInYear)

lemma month_day_table:
  fixes l m d :: int
  assumes l: "l = 0 \<or> l = 1" and m: "0 \<le> m" "m \<le> 11" and d: "1 \<le> d"
    "d \<le> (if m = 1 then 28 + l else if m = 3 \<or> m = 5 \<or> m = 8 \<or> m = 10 then 30 else 31)"
  shows "0 \<le> monthStart l m + d - 1" "monthStart l m + d - 1 < 365 + l"
  using month_cases [OF m] l d by (elim disjE; simp add: monthStart_def)+

lemma MonthFromTime_eq:
  assumes W: "DayWithinYear t = monthStart l m + d - 1" and L: "InLeapYear t = l"
    and l: "l = 0 \<or> l = 1" and m: "0 \<le> m" "m \<le> 11" and d: "1 \<le> d"
    "d \<le> (if m = 1 then 28 + l else if m = 3 \<or> m = 5 \<or> m = 8 \<or> m = 10 then 30 else 31)"
  shows "MonthFromTime t = m"
  unfolding MonthFromTime_def W L Let_def
  using month_cases [OF m] l d by (elim disjE; simp add: monthStart_def)

lemma DateFromTime_eq:
  assumes W: "DayWithinYear t = monthStart l m + d - 1" and L: "InLeapYear t = l"
    and M: "MonthFromTime t = m" and m: "0 \<le> m" "m \<le> 11"
  shows "DateFromTime t = d"
  unfolding DateFromTime_def W L M Let_def
  using month_cases [OF m] by (elim disjE; simp add: monthStart_def)

lemma daysInMonth_succ:
  "daysInMonth y (m + 1) =
     (if m = 1 then 28 + (if isLeapYear y then 1 else 0)
      else if m = 3 \<or> m = 5 \<or> m = 8 \<or> m = 10 then 30 else 31)"
  by (auto simp: daysInMonth_def)

lemma date_round_trip:
  assumes m: "0 \<le> m" "m \<le> 11" and d: "1 \<le> d" "d \<le> daysInMonth y (m + 1)"
  shows "YearFromTime (MakeDate (MakeDay y m d) 0) = y
    \<and> MonthFromTime (MakeDate (MakeDay y m d) 0) = m
    \<and> DateFromTime (MakeDate (MakeDay y m d) 0) = d"
proof -
  define l :: int where "l = (if isLeapYear y then 1 else 0)"
  define w where "w = monthStart l m + d - 1"
  define t where "t = MakeDate (MakeDay y m d) 0"
  have l: "l = 0 \<or> l = 1" by (simp add: l_def)
  have dm: "d \<le> (if m = 1 then 28 + l else if m = 3 \<or> m = 5 \<or> m = 8 \<or> m = 10 then 30 else 31)"
    using d(2) unfolding daysInMonth_succ l_def .
  have w: "0 \<le> w" "w < 365 + l"
    unfolding w_def by (rule month_day_table [OF l m d(1) dm])+
  have md: "MakeDay y m d = DayFromYear y + w"
    by (simp add: MakeDay_in_year [OF m] w_def l_def)
  have day: "Day t = DayFromYear y + w"
    by (simp add: t_def Day_MakeDate md)
  have "DaysInYear y = 365 + l" by (simp add: DaysInYear_leap l_def)
  then have Y: "YearFromTime t = y"
    unfolding t_def md using w by (intro YearFromTime_day) simp_all
  have L: "InLeapYear t = l"
    by (simp add: InLeapYear_eq Y l_def)
  have W: "DayWithinYear t = monthStart l m + d - 1"
    by (simp add: DayWithinYear_def Y day w_def)
  have M: "MonthFromTime t = m"
    by (rule MonthFromTime_eq [OF W L l m d(1) dm])
  have D: "DateFromTime t = d"
    by (rule DateFromTime_eq [OF W L M m])
  show ?thesis using Y M D by (simp add: t_def)
qed


lemma monthStart_first:
  assumes "0 \<le> mn" "mn \<le> 11"
  shows "YearFromTime (MakeDate (DayFromYear ym + monthStart (if DaysInYear ym = 366 then 1 else 0) mn) 0) = ym
    \<and> MonthFromTime (MakeDate (DayFromYear ym + monthStart (if DaysInYear ym = 366 then 1 else 0) mn) 0) = mn
    \<and> DateFromTime (MakeDate (DayFromYear ym + monthStart (if DaysInYear ym = 366 then 1 else 0) mn) 0) = 1"
proof -
  have "1 \<le> daysInMonth ym (mn + 1)" by (simp add: daysInMonth_succ)
  from date_round_trip [OF assms order_refl this]
  show ?thesis using assms by (simp add: MakeDay_in_year isLeapYear_DaysInYear)
qed
















section \<open>Facts about the validators\<close>

lemma isDigit_cases: "isDigit c \<longleftrightarrow> c = CHR ''0'' \<or> c = CHR ''1'' \<or> c = CHR ''2'' \<or> c = CHR ''3'' \<or> c = CHR ''4''
   \<or> c = CHR ''5'' \<or> c = CHR ''6'' \<or> c = CHR ''7'' \<or> c = CHR ''8'' \<or> c = CHR ''9''"
  by (simp add: isDigit_def)

lemma digitVal_range: "isDigit c \<Longrightarrow> 0 \<le> digitVal c \<and> digitVal c \<le> 9"
  unfolding isDigit_cases by (elim disjE; simp add: digitVal_def)










lemma decimal2: "decimal [a, b] = 10 * digitVal a + digitVal b"
  by (simp add: decimal_def)


lemma decimal2_range: "isDigit a \<Longrightarrow> isDigit b \<Longrightarrow> 0 \<le> decimal [a, b] \<and> decimal [a, b] \<le> 99"
  using digitVal_range [of a] digitVal_range [of b] by (simp add: decimal2)















section \<open>Facts about the handlers\<close>



lemma find_append_new: "find p xs = None \<Longrightarrow> p d \<Longrightarrow> find p (xs @ [d]) = Some d"
  by (induction xs) (auto split: if_splits)

lemma ownedBy_default: "ownedBy uid (defaultSchedule i uid)"
  by (simp add: ownedBy_def defaultSchedule_def)

lemma default_days:
  "map (getProp (JObj (defaultSchedule i uid))) days
     = [defaultDay, defaultDay, defaultDay, defaultDay, defaultDay, defaultDay, defaultDay]"
  by (simp add: defaultSchedule_def days_def defaultDay_def)

lemma validation_400:
  "timeOffValidation P type s e = Inl r \<Longrightarrow> \<exists>msg. r = Response 400 (Message msg)"
  by (auto simp: timeOffValidation_def split: if_splits)

lemma updateFirst_member: "find p xs = Some x \<Longrightarrow> f x \<in> set (updateFirst p f xs)"
  by (induction xs) (auto split: if_splits)


















section \<open>The claims\<close>

subsection \<open>C1: the date validator\<close>




subsection \<open>C2: a day off is a single day\<close>

text \<open>
  Both handlers compare the type of the body with the string \<^verbatim>\<open>dayOff\<close> and, when it is
  that string, store the start date as the end date whatever end date the client sends:
  a create or an update with the type \<^verbatim>\<open>dayOff\<close> that succeeds leaves a record of type
  \<^verbatim>\<open>dayOff\<close> whose end date is its start date, the start date of the body.
\<close>

lemma validated_string:
  assumes "timeOffValidation P type s e = Inr fe"
  shows "\<exists>sd. s = JStr sd \<and> sd \<noteq> []"
proof -
  have "validateDateFormat (localTZA P) s"
    using assms by (auto simp: timeOffValidation_def split: if_splits)
  then show ?thesis
    by (cases s) (auto simp: validateDateFormat_def split: if_splits)
qed

lemma timeOffValidation_dayOff:
  "timeOffValidation P (JStr ''dayOff'') s e = Inr fe \<Longrightarrow> fe = s"
  by (simp add: timeOffValidation_def split: if_splits)

lemma dayOff_forced_create:
  assumes "post_timeoff P E uid (JStr ''dayOff'') s e desc st = (Response 201 r, st')"
  shows "\<exists>t. r = TimeOffReply ''Time off request created successfully'' t
    \<and> st' = st\<lparr>timeOffs := timeOffs st @ [t]\<rparr>
    \<and> toType t = ''dayOff'' \<and> endDate t = startDate t \<and> s = JStr (startDate t)"
proof (cases "timeOffValidation P (JStr ''dayOff'') s e")
  case (Inl r')
  from validation_400 [OF this] assms Inl show ?thesis by (auto simp: post_timeoff_def)
next
  case (Inr fe)
  from validated_string [OF Inr] obtain sd where s: "s = JStr sd" "sd \<noteq> []" by blast
  have fe: "fe = JStr sd" using timeOffValidation_dayOff [OF Inr] s by simp
  show ?thesis
    using assms Inr s fe
    by (auto simp: post_timeoff_def newTimeOff_def requiredString_def typeValues_def serverError_def
        split: option.splits if_splits)
qed

lemma dayOff_forced_update:
  assumes "put_timeoff P E uid id' (JStr ''dayOff'') s e desc st = (Response 200 r, st')"
  shows "\<exists>t. r = TimeOffReply ''Time off request updated successfully'' t
    \<and> toType t = ''dayOff'' \<and> endDate t = startDate t \<and> s = JStr (startDate t)
    \<and> t \<in> set (timeOffs st')"
proof (cases "timeOffValidation P (JStr ''dayOff'') s e")
  case (Inl r')
  from validation_400 [OF this] assms Inl show ?thesis by (auto simp: put_timeoff_def)
next
  case (Inr fe)
  from validated_string [OF Inr] obtain sd where s: "s = JStr sd" "sd \<noteq> []" by blast
  have fe: "fe = JStr sd" using timeOffValidation_dayOff [OF Inr] s by simp
  from assms Inr obtain i change old where
    u: "timeOffUpdate P (JStr ''dayOff'') s fe desc = Some change"
      "find (ownTimeOff i uid) (timeOffs st) = Some old"
      "r = TimeOffReply ''Time off request updated successfully'' (change old)"
      "st' = st\<lparr>timeOffs := updateFirst (ownTimeOff i uid) change (timeOffs st)\<rparr>"
    by (auto simp: put_timeoff_def serverError_def split: option.splits if_splits)
  from u(1) obtain d where
    c: "change = applyTimeOffUpdate (JStr ''dayOff'') (JStr sd) (JStr sd) d"
    by (auto simp: timeOffUpdate_def castUpdateField_def s fe split: option.splits if_splits)
  have m: "change old \<in> set (updateFirst (ownTimeOff i uid) change (timeOffs st))"
    by (rule updateFirst_member [OF u(2)])
  show ?thesis
    using u(3,4) m
    by (simp add: c applyTimeOffUpdate_def written_def inUpdate_def strOf_def s)
qed

text \<open>
  C2 says that every stored record of type \<^verbatim>\<open>dayOff\<close> has its end date equal to its start
  date, whatever the client sends. The comparison \<^verbatim>\<open>type === 'dayOff'\<close> of the handler
  misses a type that is no string and that the schema casts to \<^verbatim>\<open>dayOff\<close>: for the object
  \<^verbatim>\<open>{ "_id": "dayOff" }\<close> the handler keeps the end date of the client, and the stored record
  has the type \<^verbatim>\<open>dayOff\<close> with an end date two days after its start date.
\<close>

theorem dayOff_cast_violation:
  "post_timeoff demoPlatform demoEnv 1 (JObj [(''_id'', JStr ''dayOff'')]) (JStr ''2024-05-01'')
      (JStr ''2024-05-03'') JUndefined emptyStore
   = (Response 201 (TimeOffReply ''Time off request created successfully''
        \<lparr>timeOff_id = 100, userId = 1, toType = ''dayOff'', startDate = ''2024-05-01'',
         endDate = ''2024-05-03'', description = JUndefined, status = ''pending'',
         createdAt = 1714521600000\<rparr>),
      \<lparr>users = [], schedules = [],
       timeOffs = [\<lparr>timeOff_id = 100, userId = 1, toType = ''dayOff'', startDate = ''2024-05-01'',
         endDate = ''2024-05-03'', description = JUndefined, status = ''pending'',
         createdAt = 1714521600000\<rparr>]\<rparr>)"
  by code_simp

text \<open>The store that this request leaves breaks the invariant.\<close>

theorem dayOff_cast_violation_witness:
  "\<not> dayOffInvariant (snd (post_timeoff demoPlatform demoEnv 1 (JObj [(''_id'', JStr ''dayOff'')])
      (JStr ''2024-05-01'') (JStr ''2024-05-03'') JUndefined emptyStore))"
  using dayOff_cast_violation by (simp add: dayOffInvariant_def)

subsection \<open>C3: the end date may not be earlier than the start date\<close>




subsection \<open>C4: issuing and verifying a token\<close>

text \<open>
  C4: a token issued for a user id and verified at once yields that user id, and so it
  does at any time before its expiry; verified 24 hours after it was issued or later it
  fails with \<open>InvalidToken\<close>; a token whose signature does not match and a malformed token
  fail with \<open>InvalidToken\<close>. The middleware answers each such failure with status 401 and
  the same message. The token functions are those modelled from the specification.
\<close>

theorem token_round_trip:
  "jwt_verify P (now E) (jwt_sign P (now E) U)
      = Inr \<lparr>jwt_userId = U, iat = now E div 1000, exp = now E div 1000 + 86400\<rparr>
   \<and> authenticate P E (Some (jwt_sign P (now E) U)) = Inr U
   \<and> (now E' div 1000 < now E div 1000 + 86400 \<longrightarrow>
        authenticate P E' (Some (jwt_sign P (now E) U)) = Inr U)
   \<and> (now E div 1000 + 86400 \<le> now E' div 1000 \<longrightarrow>
        jwt_verify P (now E') (jwt_sign P (now E) U) = Inl InvalidToken
        \<and> authenticate P E' (Some (jwt_sign P (now E) U)) = Inl invalidToken)
   \<and> (sg \<noteq> hmac P (JWT_SECRET P) c \<longrightarrow>
        jwt_verify P (now E) (Jwt c sg) = Inl InvalidToken
        \<and> authenticate P E (Some (Jwt c sg)) = Inl invalidToken)
   \<and> jwt_verify P (now E) (Garbage s) = Inl InvalidToken
   \<and> authenticate P E (Some (Garbage s)) = Inl invalidToken
   \<and> invalidToken = Response 401 (Message ''Invalid or expired token'')"
  by (simp add: jwt_verify_def jwt_sign_def authenticate_def invalidToken_def Let_def)

text \<open>
  A token of user 42: verified one millisecond before the 24 hours are over, after 24
  hours, and a token with a forged signature.
\<close>

theorem token_round_trip_witness:
  "now demoEnv div 1000 + 86400 \<le> now laterEnv div 1000
   \<and> authenticate demoPlatform laterEnv (Some (jwt_sign demoPlatform (now demoEnv) 42))
       = Inl (Response 401 (Message ''Invalid or expired token''))
   \<and> now (demoEnv\<lparr>now := now demoEnv + 86399999\<rparr>) div 1000 < now demoEnv div 1000 + 86400
   \<and> authenticate demoPlatform (demoEnv\<lparr>now := now demoEnv + 86399999\<rparr>)
        (Some (jwt_sign demoPlatform (now demoEnv) 42)) = Inr 42
   \<and> ''forged'' \<noteq> hmac demoPlatform (JWT_SECRET demoPlatform) \<lparr>jwt_userId = 42, iat = 0, exp = 9999999999\<rparr>
   \<and> authenticate demoPlatform demoEnv (Some (Jwt \<lparr>jwt_userId = 42, iat = 0, exp = 9999999999\<rparr> ''forged''))
       = Inl (Response 401 (Message ''Invalid or expired token''))"
proof -
  have e: "now demoEnv div 1000 + 86400 \<le> now laterEnv div 1000"
    by (simp add: laterEnv_def demoEnv_def)
  have v: "now (demoEnv\<lparr>now := now demoEnv + 86399999\<rparr>) div 1000 < now demoEnv div 1000 + 86400"
    by (simp add: demoEnv_def)
  have g: "''forged'' \<noteq> hmac demoPlatform (JWT_SECRET demoPlatform) \<lparr>jwt_userId = 42, iat = 0, exp = 9999999999\<rparr>"
    by (simp add: demoPlatform_def)
  note t1 = token_round_trip [where P = demoPlatform and E = demoEnv and E' = laterEnv and U = 42
      and sg = "''forged''" and c = "\<lparr>jwt_userId = 42, iat = 0, exp = 9999999999\<rparr>"]
  note t2 = token_round_trip [where P = demoPlatform and E = demoEnv
      and E' = "demoEnv\<lparr>now := now demoEnv + 86399999\<rparr>" and U = 42]
  have a: "authenticate demoPlatform laterEnv (Some (jwt_sign demoPlatform (now demoEnv) 42))
       = Inl (Response 401 (Message ''Invalid or expired token''))"
    using t1 e by simp
  have b: "authenticate demoPlatform (demoEnv\<lparr>now := now demoEnv + 86399999\<rparr>)
        (Some (jwt_sign demoPlatform (now demoEnv) 42)) = Inr 42"
    using t2 v by blast
  have c: "authenticate demoPlatform demoEnv (Some (Jwt \<lparr>jwt_userId = 42, iat = 0, exp = 9999999999\<rparr> ''forged''))
       = Inl (Response 401 (Message ''Invalid or expired token''))"
    using t1 g by simp
  show ?thesis using e v g a b c by blast
qed

subsection \<open>C5: a time-off request of another user is not found\<close>

lemma storeOfOther_eq:
  "storeOfOther = \<lparr>users = [], schedules = [],
     timeOffs = [\<lparr>timeOff_id = 100, userId = 2, toType = ''vacation'', startDate = ''2024-05-01'',
       endDate = ''2024-05-03'', description = JStr ''trip'', status = ''pending'',
       createdAt = 1714521600000\<rparr>]\<rparr>"
  by code_simp

lemma find_None_iff_own:
  "find (ownTimeOff i uid) xs = None \<longleftrightarrow> (\<forall>t \<in> set xs. \<not> (timeOff_id t = i \<and> userId t = uid))"
  by (auto simp: find_None_iff ownTimeOff_def)

lemma timeOffUpdate_enum:
  "ty \<notin> set typeValues \<Longrightarrow> timeOffUpdate P (JStr ty) s fe desc = None"
  by (simp add: timeOffUpdate_def castUpdateField_def inUpdate_def strOf_def split: option.splits)

lemma timeOffUpdate_plain:
  assumes "ty \<in> set typeValues" "sd \<noteq> []" "ed \<noteq> []" "\<not> isObject desc" "castString P desc = Some d"
  shows "timeOffUpdate P (JStr ty) (JStr sd) (JStr ed) desc
    = Some (applyTimeOffUpdate (JStr ty) (JStr sd) (JStr ed) d)"
proof -
  have "castUpdateField P ''description'' desc = Some d"
    using assms(4,5) by (cases desc) (auto simp: castUpdateField_def)
  moreover have "ty \<noteq> []" using assms(1) by (auto simp: typeValues_def)
  ultimately show ?thesis
    using assms(1,2,3)
    by (simp add: timeOffUpdate_def castUpdateField_def inUpdate_def strOf_def requiredString_def)
qed

text \<open>
  C5, as stated, promises status 404 for every update or delete of a record that does
  not exist or is not the caller's. The record of user 2 has the id 100. An update of it
  by user 1 is answered with status 400 when the body fails the validation of the
  handler, which comes before the query, and with status 500 when the type is none that
  the schema enumerates; a delete with an id that is no \<^verbatim>\<open>ObjectId\<close> is answered with
  status 500, and so is any request when the database fails.
\<close>

theorem timeoff_not_owned_counterexample:
  "map timeOff_id (timeOffs storeOfOther) = [100] \<and> map userId (timeOffs storeOfOther) = [2]
   \<and> castObjectId demoPlatform id100 = Some 100
   \<and> fst (put_timeoff demoPlatform demoEnv 1 id100 (JStr ''vacation'') (JStr ''2024-05-10'')
        (JStr ''2024-05-05'') JUndefined storeOfOther)
      = Response 400 (Message ''End date must be after start date'')
   \<and> fst (put_timeoff demoPlatform demoEnv 1 id100 (JStr ''holiday'') (JStr ''2024-05-10'')
        (JStr ''2024-05-12'') JUndefined storeOfOther)
      = Response 500 (Message ''Server error'')
   \<and> fst (delete_timeoff demoPlatform demoEnv 1 ''abc'' storeOfOther)
      = Response 500 (Message ''Server error'')
   \<and> fst (delete_timeoff demoPlatform failingEnv 1 id100 storeOfOther)
      = Response 500 (Message ''Server error'')"
  by code_simp

text \<open>
  C5 (amended): when no record with the given id belongs to the caller (there is none
  with that id, or its owner is another user), a delete or an update changes nothing in
  the store, whatever the body. The delete is answered with status 404, or with status
  500 when the id is no \<^verbatim>\<open>ObjectId\<close> or the database fails. The update is answered with
  status 400 when the body fails the validation of the handler; otherwise with status 500
  when the id is no \<^verbatim>\<open>ObjectId\<close>, the document layer rejects the update (as it does for
  a type that the schema does not enumerate) or the database fails; and otherwise with
  status 404, as it is for a body with an enumerated type, string dates and a description
  that is a string or absent.
\<close>

theorem timeoff_not_owned:
  assumes "\<forall>t \<in> set (timeOffs st). \<not> (castObjectId P id' = Some (timeOff_id t) \<and> userId t = uid)"
  shows "snd (delete_timeoff P E uid id' st) = st
    \<and> snd (put_timeoff P E uid id' type s e desc st) = st
    \<and> fst (delete_timeoff P E uid id' st)
        = (if castObjectId P id' = None \<or> raises E 0 then serverError else timeOffNotFound)
    \<and> fst (put_timeoff P E uid id' type s e desc st)
        = (case timeOffValidation P type s e of
             Inl r \<Rightarrow> r
           | Inr fe \<Rightarrow>
               if castObjectId P id' = None \<or> timeOffUpdate P type s fe desc = None \<or> raises E 0
               then serverError else timeOffNotFound)
    \<and> (timeOffValidation P type s e = Inl r \<longrightarrow> (\<exists>msg. r = Response 400 (Message msg)))
    \<and> (ty \<notin> set typeValues \<longrightarrow> timeOffUpdate P (JStr ty) s fe desc = None)
    \<and> (ty \<in> set typeValues \<and> sd \<noteq> [] \<and> ed \<noteq> [] \<and> \<not> isObject desc \<and> castString P desc \<noteq> None
         \<longrightarrow> timeOffUpdate P (JStr ty) (JStr sd) (JStr ed) desc \<noteq> None)"
proof -
  have n: "castObjectId P id' = Some i \<Longrightarrow> find (ownTimeOff i uid) (timeOffs st) = None" for i
    using assms by (simp add: find_None_iff_own)
  have a: "snd (delete_timeoff P E uid id' st) = st"
    by (simp add: delete_timeoff_def n split: option.splits)
  have b: "snd (put_timeoff P E uid id' type s e desc st) = st"
    by (simp add: put_timeoff_def n split: sum.splits option.splits)
  have c: "fst (delete_timeoff P E uid id' st)
        = (if castObjectId P id' = None \<or> raises E 0 then serverError else timeOffNotFound)"
    by (auto simp: delete_timeoff_def n timeOffNotFound_def split: option.splits)
  have d: "fst (put_timeoff P E uid id' type s e desc st)
        = (case timeOffValidation P type s e of
             Inl r \<Rightarrow> r
           | Inr fe \<Rightarrow>
               if castObjectId P id' = None \<or> timeOffUpdate P type s fe desc = None \<or> raises E 0
               then serverError else timeOffNotFound)"
    by (auto simp: put_timeoff_def n timeOffNotFound_def split: sum.splits option.splits)
  have f: "timeOffValidation P type s e = Inl r \<longrightarrow> (\<exists>msg. r = Response 400 (Message msg))"
    using validation_400 by blast
  have g: "ty \<notin> set typeValues \<longrightarrow> timeOffUpdate P (JStr ty) s fe desc = None"
    using timeOffUpdate_enum by blast
  have h: "ty \<in> set typeValues \<and> sd \<noteq> [] \<and> ed \<noteq> [] \<and> \<not> isObject desc \<and> castString P desc \<noteq> None
         \<longrightarrow> timeOffUpdate P (JStr ty) (JStr sd) (JStr ed) desc \<noteq> None"
    using timeOffUpdate_plain [of ty sd ed desc P] by auto
  show ?thesis using a b c d f g h by blast
qed

text \<open>
  User 1 deletes and updates the record of user 2: each request is answered with status
  404 and leaves the store as it is.
\<close>

theorem timeoff_not_owned_witness:
  "map timeOff_id (timeOffs storeOfOther) = [100] \<and> map userId (timeOffs storeOfOther) = [2]
   \<and> castObjectId demoPlatform id100 = Some 100 \<and> \<not> raises demoEnv 0
   \<and> timeOffValidation demoPlatform (JStr ''vacation'') (JStr ''2024-05-10'') (JStr ''2024-05-12'')
      = Inr (JStr ''2024-05-12'')
   \<and> delete_timeoff demoPlatform demoEnv 1 id100 storeOfOther
      = (Response 404 (Message ''Time off request not found''), storeOfOther)
   \<and> put_timeoff demoPlatform demoEnv 1 id100 (JStr ''vacation'') (JStr ''2024-05-10'')
        (JStr ''2024-05-12'') JUndefined storeOfOther
      = (Response 404 (Message ''Time off request not found''), storeOfOther)"
proof -
  have i: "castObjectId demoPlatform id100 = Some 100" by code_simp
  have h: "\<forall>t \<in> set (timeOffs storeOfOther).
      \<not> (castObjectId demoPlatform id100 = Some (timeOff_id t) \<and> userId t = 1)"
    by (simp add: storeOfOther_eq)
  have m: "map timeOff_id (timeOffs storeOfOther) = [100]" "map userId (timeOffs storeOfOther) = [2]"
    by (simp_all add: storeOfOther_eq)
  have n: "\<not> raises demoEnv 0" by (simp add: demoEnv_def)
  have v: "timeOffValidation demoPlatform (JStr ''vacation'') (JStr ''2024-05-10'') (JStr ''2024-05-12'')
      = Inr (JStr ''2024-05-12'')"
    by code_simp
  have c: "''vacation'' \<in> set typeValues" "''2024-05-10'' \<noteq> []" "''2024-05-12'' \<noteq> []"
    "\<not> isObject JUndefined" "castString demoPlatform JUndefined \<noteq> None"
    by (simp_all add: typeValues_def)
  note t = timeoff_not_owned [OF h, where E = demoEnv and type = "JStr ''vacation''"
      and s = "JStr ''2024-05-10''" and e = "JStr ''2024-05-12''" and desc = JUndefined
      and ty = "''vacation''" and sd = "''2024-05-10''" and ed = "''2024-05-12''"
      and fe = "JStr ''2024-05-12''"]
  from t c have u: "timeOffUpdate demoPlatform (JStr ''vacation'') (JStr ''2024-05-10'')
      (JStr ''2024-05-12'') JUndefined \<noteq> None"
    by blast
  from t have
    "snd (delete_timeoff demoPlatform demoEnv 1 id100 storeOfOther) = storeOfOther"
    "fst (delete_timeoff demoPlatform demoEnv 1 id100 storeOfOther) = timeOffNotFound"
    "snd (put_timeoff demoPlatform demoEnv 1 id100 (JStr ''vacation'') (JStr ''2024-05-10'')
        (JStr ''2024-05-12'') JUndefined storeOfOther) = storeOfOther"
    "fst (put_timeoff demoPlatform demoEnv 1 id100 (JStr ''vacation'') (JStr ''2024-05-10'')
        (JStr ''2024-05-12'') JUndefined storeOfOther) = timeOffNotFound"
    using i n v u by simp_all
  then show ?thesis using m i n v by (simp add: prod_eq_iff timeOffNotFound_def)
qed

subsection \<open>C6: a schedule is created on the first fetch\<close>

text \<open>
  C6: when the caller has no stored schedule and no store call throws, the fetch stores
  and returns a schedule whose seven weekdays are \<^verbatim>\<open>09:00\<close> to \<^verbatim>\<open>17:30\<close> (\<open>defaultDay\<close>), and
  a second fetch right after it returns the same document and leaves the store as it is.
\<close>

theorem lazy_schedule:
  assumes none: "find (ownedBy uid) (schedules st) = None"
    and ok: "\<not> raises E 0" "\<not> raises E 1" and ok': "\<not> raises E' 0"
  shows "get_schedule E uid st =
      (Response 200 (ScheduleDoc (defaultSchedule (newId E 0) uid)),
       st\<lparr>schedules := schedules st @ [defaultSchedule (newId E 0) uid]\<rparr>)
    \<and> map (getProp (JObj (defaultSchedule (newId E 0) uid))) days
        = [defaultDay, defaultDay, defaultDay, defaultDay, defaultDay, defaultDay, defaultDay]
    \<and> get_schedule E' uid (snd (get_schedule E uid st)) =
        (fst (get_schedule E uid st), snd (get_schedule E uid st))"
proof -
  have a: "get_schedule E uid st =
      (Response 200 (ScheduleDoc (defaultSchedule (newId E 0) uid)),
       st\<lparr>schedules := schedules st @ [defaultSchedule (newId E 0) uid]\<rparr>)"
    using none ok by (simp add: get_schedule_def Let_def)
  have "find (ownedBy uid) (schedules st @ [defaultSchedule (newId E 0) uid])
      = Some (defaultSchedule (newId E 0) uid)"
    by (rule find_append_new [OF none ownedBy_default])
  then have "get_schedule E' uid (st\<lparr>schedules := schedules st @ [defaultSchedule (newId E 0) uid]\<rparr>)
      = (Response 200 (ScheduleDoc (defaultSchedule (newId E 0) uid)),
         st\<lparr>schedules := schedules st @ [defaultSchedule (newId E 0) uid]\<rparr>)"
    using ok' by (simp add: get_schedule_def)
  then have b: "get_schedule E' uid (snd (get_schedule E uid st)) =
        (fst (get_schedule E uid st), snd (get_schedule E uid st))"
    unfolding a by simp
  show ?thesis using a b default_days by blast
qed

text \<open>
  The first two fetches of user 7 on the empty store.
\<close>

theorem lazy_schedule_witness:
  "find (ownedBy 7) (schedules emptyStore) = None
   \<and> \<not> raises demoEnv 0 \<and> \<not> raises demoEnv 1
   \<and> get_schedule demoEnv 7 emptyStore =
       (Response 200 (ScheduleDoc (defaultSchedule 100 7)),
        \<lparr>users = [], schedules = [defaultSchedule 100 7], timeOffs = []\<rparr>)
   \<and> get_schedule demoEnv 7 (snd (get_schedule demoEnv 7 emptyStore)) =
       (Response 200 (ScheduleDoc (defaultSchedule 100 7)),
        \<lparr>users = [], schedules = [defaultSchedule 100 7], timeOffs = []\<rparr>)"
proof -
  have h: "find (ownedBy 7) (schedules emptyStore) = None" by (simp add: emptyStore_def)
  have n: "\<not> raises demoEnv 0" "\<not> raises demoEnv 1" by (simp_all add: demoEnv_def)
  have d: "newId demoEnv 0 = 100" by (simp add: demoEnv_def)
  have e: "emptyStore\<lparr>schedules := schedules emptyStore @ [defaultSchedule 100 7]\<rparr>
      = \<lparr>users = [], schedules = [defaultSchedule 100 7], timeOffs = []\<rparr>"
    by (simp add: emptyStore_def)
  note t = lazy_schedule [OF h n n(1), unfolded d e]
  have A: "get_schedule demoEnv 7 emptyStore =
       (Response 200 (ScheduleDoc (defaultSchedule 100 7)),
        \<lparr>users = [], schedules = [defaultSchedule 100 7], timeOffs = []\<rparr>)"
    using t by blast
  have "get_schedule demoEnv 7 (snd (get_schedule demoEnv 7 emptyStore)) =
       (fst (get_schedule demoEnv 7 emptyStore), snd (get_schedule demoEnv 7 emptyStore))"
    using t by blast
  then have B: "get_schedule demoEnv 7 \<lparr>users = [], schedules = [defaultSchedule 100 7], timeOffs = []\<rparr> =
       (Response 200 (ScheduleDoc (defaultSchedule 100 7)),
        \<lparr>users = [], schedules = [defaultSchedule 100 7], timeOffs = []\<rparr>)"
    unfolding A by simp
  show ?thesis using h n B by (simp add: A)
qed

subsection \<open>C7: the order of the time checks\<close>




subsection \<open>C8: the two failures of a login look the same\<close>

lemma aliceStore_users:
  "users aliceStore = [\<lparr>user_id = 100, username = ''alice'', password = ''saltsecret'',
     email = ''alice@example.org'', user_createdAt = 1714521600000\<rparr>]"
  by code_simp

text \<open>
  For a username and a password that are strings, the two failures look the same: the
  login is answered with status 400 and the message \<^verbatim>\<open>Invalid credentials\<close>, the store
  unchanged, both when no user has that username and when the user exists and
  \<^verbatim>\<open>bcrypt.compare\<close> rejects the password (the database and the comparison not failing).
\<close>

lemma login_same_failure:
  assumes "u \<noteq> []" and "p \<noteq> []" and "\<not> raises E 0"
  shows "find (userNamed u) (users st) = None
      \<Longrightarrow> login P E (JStr u) (JStr p) st = (invalidCredentials, st)"
    and "find (userNamed u) (users st) = Some x \<Longrightarrow> \<not> raises E 1
      \<Longrightarrow> \<not> bcrypt_compare P p (password x)
      \<Longrightarrow> login P E (JStr u) (JStr p) st = (invalidCredentials, st)"
  using assms by (simp_all add: login_def findUser_def invalidCredentials_def strOf_def)

text \<open>
  C8 says that an unknown username and a wrong password are answered alike for every
  request with a non-empty username and password. The handler tests only that the two
  are truthy. A password that is a number reaches \<^verbatim>\<open>bcrypt.compare\<close>, which rejects an
  argument that is no string, only when the user exists: with the password \<^verbatim>\<open>123\<close> the
  login as alice, who is registered, is answered with status 500 and the login as bob,
  who is not, with status 400.
\<close>

theorem login_numeric_password:
  "map username (users aliceStore) = [''alice'']
   \<and> truthy (JNum 123)
   \<and> login demoPlatform demoEnv (JStr ''alice'') (JNum 123) aliceStore
        = (Response 500 (Message ''Server error''), aliceStore)
   \<and> login demoPlatform demoEnv (JStr ''bob'') (JNum 123) aliceStore
        = (Response 400 (Message ''Invalid credentials''), aliceStore)"
proof -
  have a: "map username (users aliceStore) = [''alice'']" by (simp add: aliceStore_users)
  have b: "login demoPlatform demoEnv (JStr ''alice'') (JNum 123) aliceStore
        = (Response 500 (Message ''Server error''), aliceStore)"
    by (simp add: login_def findUser_def aliceStore_users userNamed_def demoEnv_def serverError_def)
  have c: "login demoPlatform demoEnv (JStr ''bob'') (JNum 123) aliceStore
        = (Response 400 (Message ''Invalid credentials''), aliceStore)"
    by (simp add: login_def findUser_def aliceStore_users userNamed_def demoEnv_def)
  show ?thesis using a b c by simp
qed

text \<open>The two responses differ, so the request tells whether the username exists.\<close>

theorem login_numeric_password_witness:
  "fst (login demoPlatform demoEnv (JStr ''alice'') (JNum 123) aliceStore)
     \<noteq> fst (login demoPlatform demoEnv (JStr ''bob'') (JNum 123) aliceStore)"
  using login_numeric_password by simp

subsection \<open>C9: an update leaves status, owner and creation time alone\<close>


lemma applyTimeOffUpdate_frame [simp]:
  "status (applyTimeOffUpdate ty sd ed d t) = status t"
  "userId (applyTimeOffUpdate ty sd ed d t) = userId t"
  "createdAt (applyTimeOffUpdate ty sd ed d t) = createdAt t"
  "timeOff_id (applyTimeOffUpdate ty sd ed d t) = timeOff_id t"
  by (simp_all add: applyTimeOffUpdate_def)







subsection \<open>C10: what the schedule update does not check\<close>












end
